theory Spec2Isabelle
  imports Complex_Main
begin

section \<open>Retry policy and error classification of the example API client\<close>

text \<open>
  The development embeds \<^verbatim>\<open>error_handling_examples.py\<close>: the enumeration
  \<^verbatim>\<open>ErrorType\<close>, the dataclass \<^verbatim>\<open>APIError\<close>, the class \<^verbatim>\<open>RetryStrategy\<close> with its
  methods \<^verbatim>\<open>should_retry\<close> and \<^verbatim>\<open>get_delay\<close>, the class \<^verbatim>\<open>ErrorHandler\<close>, and of
  \<^verbatim>\<open>RobustAPIClient\<close> the methods \<^verbatim>\<open>_classify_error\<close> and
  \<^verbatim>\<open>_make_request_with_retry\<close>.

  Conventions of the embedding.
  \<^item> Python's \<^verbatim>\<open>int\<close> is \<^typ>\<open>int\<close>; \<^verbatim>\<open>Optional[int]\<close> is \<^typ>\<open>int option\<close>.
  \<^item> Python's \<^verbatim>\<open>float\<close> is idealised as \<^typ>\<open>real\<close>: rounding is outside the
    model. The range errors of float arithmetic are inside it: an operation that
    raises \<^verbatim>\<open>OverflowError\<close> or \<^verbatim>\<open>ZeroDivisionError\<close> in Python returns the error here.
  \<^item> A raised exception is the left injection of a sum type.
  \<^item> Reading the clock (\<^verbatim>\<open>time.time()\<close>, \<^verbatim>\<open>datetime.now()\<close>) is an explicit argument.
\<close>

subsection \<open>Exceptions\<close>

text \<open>
  The classes of exceptions the code distinguishes or produces. The first six are
  classes of \<^verbatim>\<open>requests.exceptions\<close>; there \<^verbatim>\<open>ConnectTimeout\<close> derives from both
  \<^verbatim>\<open>ConnectionError\<close> and \<^verbatim>\<open>Timeout\<close>, \<^verbatim>\<open>ReadTimeout\<close> from \<^verbatim>\<open>Timeout\<close>, and \<^verbatim>\<open>ProxyError\<close>
  and \<^verbatim>\<open>SSLError\<close> from \<^verbatim>\<open>ConnectionError\<close>.
\<close>

datatype exn_class =
    Timeout | ReadTimeout | ConnectTimeout | ConnectionError | ProxyError | SSLError
  | ValueError | TypeError | ZeroDivisionError | OverflowError | OtherException

text \<open>
  An exception either was raised outside the modelled code, and is its class with its
  string form (\<^verbatim>\<open>str(e)\<close>), or was raised by a builtin inside the modelled code:
  \<^verbatim>\<open>int(s)\<close> on a string that is no literal, a float power of zero, a float power out
  of range, \<^verbatim>\<open>float(n)\<close> on too large an \<open>n\<close>, \<^verbatim>\<open>time.sleep(None)\<close>. All of them are
  instances of \<^verbatim>\<open>Exception\<close>.
\<close>

datatype exn =
    Exn exn_class string
  | IntValueError string
  | FloatPowZero
  | FloatPowRange
  | IntTooLarge
  | SleepNone

fun class_of :: "exn \<Rightarrow> exn_class" where
  "class_of (Exn c _) = c"
| "class_of (IntValueError _) = ValueError"
| "class_of FloatPowZero = ZeroDivisionError"
| "class_of FloatPowRange = OverflowError"
| "class_of IntTooLarge = OverflowError"
| "class_of SleepNone = TypeError"

text \<open>\<^verbatim>\<open>isinstance(e, requests.exceptions.Timeout)\<close> and
  \<^verbatim>\<open>isinstance(e, requests.exceptions.ConnectionError)\<close>; the argument may be \<^verbatim>\<open>None\<close>.\<close>

definition isinstance_Timeout :: "exn option \<Rightarrow> bool" where
  "isinstance_Timeout e =
     (case e of None \<Rightarrow> False
      | Some x \<Rightarrow> class_of x \<in> set [Timeout, ReadTimeout, ConnectTimeout])"

definition isinstance_ConnectionError :: "exn option \<Rightarrow> bool" where
  "isinstance_ConnectionError e =
     (case e of None \<Rightarrow> False
      | Some x \<Rightarrow> class_of x \<in> set [ConnectionError, ConnectTimeout, ProxyError, SSLError])"

subsection \<open>Data model\<close>

datatype ErrorType =
    NETWORK_ERROR
  | TIMEOUT_ERROR
  | AUTHENTICATION_ERROR
  | AUTHORIZATION_ERROR
  | RATE_LIMIT_ERROR
  | SERVER_ERROR
  | CLIENT_ERROR
  | VALIDATION_ERROR
  | UNKNOWN_ERROR

text \<open>The \<^verbatim>\<open>.value\<close> of each member of the enumeration.\<close>

fun value_of :: "ErrorType \<Rightarrow> string" where
  "value_of NETWORK_ERROR = ''network_error''"
| "value_of TIMEOUT_ERROR = ''timeout_error''"
| "value_of AUTHENTICATION_ERROR = ''auth_error''"
| "value_of AUTHORIZATION_ERROR = ''authorization_error''"
| "value_of RATE_LIMIT_ERROR = ''rate_limit_error''"
| "value_of SERVER_ERROR = ''server_error''"
| "value_of CLIENT_ERROR = ''client_error''"
| "value_of VALIDATION_ERROR = ''validation_error''"
| "value_of UNKNOWN_ERROR = ''unknown_error''"

text \<open>
  A message is a text written out by the code, or \<^verbatim>\<open>str(exception)\<close>, which is kept as
  the exception it renders (\<^verbatim>\<open>None\<close> included: \<^verbatim>\<open>str(None)\<close>).
\<close>

datatype message = Text string | StrOf "exn option"

record APIError =
  error_type :: ErrorType
  message :: message
  status_code :: "int option"
  retry_after :: "int option"
  timestamp :: real
  original_exception :: "exn option"

record RetryStrategy =
  max_retries :: int
  base_delay :: real
  max_delay :: real
  backoff_factor :: real

text \<open>The defaults of \<^verbatim>\<open>RetryStrategy.__init__\<close>, which is what \<^verbatim>\<open>RobustAPIClient\<close> uses.\<close>

definition default_strategy :: RetryStrategy where
  "default_strategy =
     \<lparr>max_retries = 3, base_delay = 1, max_delay = 60, backoff_factor = 2\<rparr>"

subsection \<open>\<^verbatim>\<open>RetryStrategy.should_retry\<close>\<close>

definition retryable_errors :: "ErrorType list" where
  "retryable_errors = [NETWORK_ERROR, TIMEOUT_ERROR, SERVER_ERROR, RATE_LIMIT_ERROR]"

definition should_retry :: "RetryStrategy \<Rightarrow> APIError \<Rightarrow> int \<Rightarrow> bool" where
  "should_retry self error attempt =
     (if attempt \<ge> max_retries self then False
      else if error_type error = CLIENT_ERROR \<and> status_code error \<noteq> Some 429 then False
      else if error_type error = AUTHENTICATION_ERROR then False
      else error_type error \<in> set retryable_errors)"

subsection \<open>Float operations that can raise\<close>

text \<open>
  A float holds magnitudes below \<open>2^1024 - 2^970\<close>; a result at or beyond it does
  not round to a finite float.
\<close>

definition float_limit :: real where
  "float_limit = 2 ^ 1024 - 2 ^ 970"

text \<open>\<^verbatim>\<open>float(n)\<close> for an \<^verbatim>\<open>int\<close>: \<^verbatim>\<open>OverflowError\<close> when \<open>n\<close> is too large.\<close>

definition float_of_int :: "int \<Rightarrow> exn + real" where
  "float_of_int n =
     (if float_limit \<le> \<bar>real_of_int n\<bar> then Inl IntTooLarge else Inr (real_of_int n))"

text \<open>
  \<^verbatim>\<open>x ** n\<close> for a float \<open>x\<close> and an \<^verbatim>\<open>int\<close> \<open>n\<close>: the exponent is converted to a
  float first; zero to a negative power raises \<^verbatim>\<open>ZeroDivisionError\<close>; a result out of
  range raises \<^verbatim>\<open>OverflowError\<close>.
\<close>

definition float_pow :: "real \<Rightarrow> int \<Rightarrow> exn + real" where
  "float_pow x n =
     (case float_of_int n of
        Inl e \<Rightarrow> Inl e
      | Inr _ \<Rightarrow>
          if x = 0 \<and> n < 0 then Inl FloatPowZero
          else if float_limit \<le> \<bar>x powi n\<bar> then Inl FloatPowRange
          else Inr (x powi n))"

text \<open>The inputs on which \<open>float_pow\<close> returns.\<close>

definition pow_defined :: "real \<Rightarrow> int \<Rightarrow> bool" where
  "pow_defined x n =
     (\<bar>real_of_int n\<bar> < float_limit \<and> (x \<noteq> 0 \<or> 0 \<le> n) \<and> \<bar>x powi n\<bar> < float_limit)"

subsection \<open>\<^verbatim>\<open>RetryStrategy.get_delay\<close>\<close>

text \<open>
  The condition \<^verbatim>\<open>error.error_type == ErrorType.RATE_LIMIT_ERROR and error.retry_after\<close>,
  as the value that is returned when it holds. The second conjunct is the truth value
  of an \<^verbatim>\<open>Optional[int]\<close>: false for \<^verbatim>\<open>None\<close> and for \<open>0\<close>.
\<close>

definition rate_limit_delay :: "APIError \<Rightarrow> int option" where
  "rate_limit_delay error =
     (if error_type error = RATE_LIMIT_ERROR
      then (case retry_after error of
              None \<Rightarrow> None
            | Some n \<Rightarrow> if n \<noteq> 0 then Some n else None)
      else None)"

text \<open>The local variable \<^verbatim>\<open>delay\<close>: the exponential backoff before the jitter.\<close>

definition backoff :: "RetryStrategy \<Rightarrow> int \<Rightarrow> exn + real" where
  "backoff self attempt =
     (case float_pow (backoff_factor self) attempt of
        Inl e \<Rightarrow> Inl e
      | Inr p \<Rightarrow> Inr (min (base_delay self * p) (max_delay self)))"

text \<open>
  The last argument is the value of \<^verbatim>\<open>time.time()\<close> that the jitter reads;
  \<^verbatim>\<open>time.time() % 1\<close> is its fractional part.
\<close>

definition get_delay :: "RetryStrategy \<Rightarrow> int \<Rightarrow> APIError \<Rightarrow> real \<Rightarrow> exn + real" where
  "get_delay self attempt error clock =
     (case rate_limit_delay error of
        Some n \<Rightarrow> float_of_int n
      | None \<Rightarrow>
          (case backoff self attempt of
             Inl e \<Rightarrow> Inl e
           | Inr delay \<Rightarrow>
               (let jitter = delay * 0.1 * (0.5 - frac clock)
                in Inr (delay + jitter))))"

subsection \<open>Builtins used by the classification\<close>

text \<open>
  \<^verbatim>\<open>int(s)\<close> for a string: surrounding white space is dropped, a sign may lead, and
  the digits may be grouped by single underscores. Characters are code points up to
  255, as in a header value.
\<close>

definition py_isspace :: "char \<Rightarrow> bool" where
  "py_isspace c = (of_char c \<in> set [9, 10, 11, 12, 13, 32, 133, 160 :: nat])"

definition strip :: "string \<Rightarrow> string" where
  "strip s = rev (dropWhile py_isspace (rev (dropWhile py_isspace s)))"

definition digit_val :: "char \<Rightarrow> nat option" where
  "digit_val c =
     (let k = (of_char c :: nat) in if 48 \<le> k \<and> k \<le> 57 then Some (k - 48) else None)"

fun py_digits :: "nat \<Rightarrow> string \<Rightarrow> nat option" where
  "py_digits acc [] = Some acc"
| "py_digits acc [c] =
     (case digit_val c of None \<Rightarrow> None | Some v \<Rightarrow> Some (10 * acc + v))"
| "py_digits acc (c # d # ds) =
     (if c = CHR ''_''
      then (case digit_val d of None \<Rightarrow> None | Some v \<Rightarrow> py_digits (10 * acc + v) ds)
      else (case digit_val c of None \<Rightarrow> None | Some v \<Rightarrow> py_digits (10 * acc + v) (d # ds)))"

definition py_unsigned :: "string \<Rightarrow> nat option" where
  "py_unsigned s =
     (case s of
        [] \<Rightarrow> None
      | c # cs \<Rightarrow> (case digit_val c of None \<Rightarrow> None | Some v \<Rightarrow> py_digits v cs))"

text \<open>The default of \<^verbatim>\<open>sys.get_int_max_str_digits()\<close>: longer literals are refused.\<close>

definition int_max_str_digits :: nat where
  "int_max_str_digits = 4300"

definition py_int :: "string \<Rightarrow> exn + int" where
  "py_int s =
     (let t = strip s;
          r = (case t of
                 [] \<Rightarrow> None
               | c # cs \<Rightarrow>
                   if c = CHR ''-'' then map_option (\<lambda>n. - int n) (py_unsigned cs)
                   else if c = CHR ''+'' then map_option int (py_unsigned cs)
                   else map_option int (py_unsigned t))
      in if int_max_str_digits < length (filter (\<lambda>c. digit_val c \<noteq> None) t)
         then Inl (IntValueError s)
         else (case r of None \<Rightarrow> Inl (IntValueError s) | Some n \<Rightarrow> Inr n))"

text \<open>\<^verbatim>\<open>str(n)\<close> for an \<^verbatim>\<open>int\<close>, as the f-strings of the messages use it.\<close>

fun str_nat :: "nat \<Rightarrow> string" where
  "str_nat n =
     (if n < 10 then [char_of (48 + n)]
      else str_nat (n div 10) @ [char_of (48 + n mod 10)])"

declare str_nat.simps [simp del]

definition str_int :: "int \<Rightarrow> string" where
  "str_int n = (if n < 0 then CHR ''-'' # str_nat (nat (- n)) else str_nat (nat n))"

subsection \<open>\<^verbatim>\<open>RobustAPIClient._classify_error\<close>\<close>

text \<open>
  Of a \<^verbatim>\<open>requests.Response\<close> the code reads the status code, the headers and the
  decoded body. The headers are a case-insensitive dictionary: a map from the
  lower-cased name to the value. \<^verbatim>\<open>response.json()\<close> returns the decoded body, kept
  as a string, or raises.
\<close>

record Response =
  resp_status_code :: int
  headers :: "string \<rightharpoonup> string"
  json :: "exn + string"

text \<open>\<^verbatim>\<open>int(response.headers.get('Retry-After', 60))\<close>.\<close>

definition retry_after_header :: "Response \<Rightarrow> exn + int" where
  "retry_after_header response =
     (case headers response ''retry-after'' of
        None \<Rightarrow> Inr 60
      | Some v \<Rightarrow> py_int v)"

text \<open>
  The first argument is the value of \<^verbatim>\<open>datetime.now()\<close> that the constructor of
  \<^verbatim>\<open>APIError\<close> stores; \<open>exception\<close> and \<open>response\<close> may be \<^verbatim>\<open>None\<close>.
\<close>

definition classify_error :: "real \<Rightarrow> exn option \<Rightarrow> Response option \<Rightarrow> exn + APIError" where
  "classify_error now exception response =
     (let unknown = Inr \<lparr>error_type = UNKNOWN_ERROR, message = StrOf exception,
            status_code = None, retry_after = None, timestamp = now,
            original_exception = exception\<rparr>
      in
      if isinstance_Timeout exception then
        Inr \<lparr>error_type = TIMEOUT_ERROR, message = Text ''Request timeout'',
             status_code = None, retry_after = None, timestamp = now,
             original_exception = exception\<rparr>
      else if isinstance_ConnectionError exception then
        Inr \<lparr>error_type = NETWORK_ERROR, message = Text ''Connection error'',
             status_code = None, retry_after = None, timestamp = now,
             original_exception = exception\<rparr>
      else
        (case response of
           None \<Rightarrow> unknown
         | Some r \<Rightarrow>
             (let code = resp_status_code r in
              if code = 401 then
                Inr \<lparr>error_type = AUTHENTICATION_ERROR, message = Text ''Authentication failed'',
                     status_code = Some code, retry_after = None, timestamp = now,
                     original_exception = None\<rparr>
              else if code = 403 then
                Inr \<lparr>error_type = AUTHORIZATION_ERROR, message = Text ''Access forbidden'',
                     status_code = Some code, retry_after = None, timestamp = now,
                     original_exception = None\<rparr>
              else if code = 429 then
                (case retry_after_header r of
                   Inl e \<Rightarrow> Inl e
                 | Inr n \<Rightarrow>
                     Inr \<lparr>error_type = RATE_LIMIT_ERROR, message = Text ''Rate limit exceeded'',
                          status_code = Some code, retry_after = Some n, timestamp = now,
                          original_exception = None\<rparr>)
              else if 400 \<le> code \<and> code < 500 then
                Inr \<lparr>error_type = CLIENT_ERROR,
                     message = Text (''Client error: '' @ str_int code),
                     status_code = Some code, retry_after = None, timestamp = now,
                     original_exception = None\<rparr>
              else if 500 \<le> code \<and> code < 600 then
                Inr \<lparr>error_type = SERVER_ERROR,
                     message = Text (''Server error: '' @ str_int code),
                     status_code = Some code, retry_after = None, timestamp = now,
                     original_exception = None\<rparr>
              else unknown)))"

text \<open>What a classification results in: it returns an error of the given kind and
  \<open>retry_after\<close>.\<close>

abbreviation yields :: "exn + APIError \<Rightarrow> ErrorType \<Rightarrow> int option \<Rightarrow> bool" where
  "yields res kind delay \<equiv>
     (\<exists>err. res = Inr err \<and> error_type err = kind \<and> retry_after err = delay)"

subsection \<open>\<^verbatim>\<open>ErrorHandler\<close>\<close>

text \<open>
  A callback is run for its effect; what \<open>handle_error\<close> sees of it is whether it
  raises: \<open>None\<close> when it returns, \<open>Some e\<close> when it raises \<open>e\<close>.
\<close>

type_synonym callback = "APIError \<Rightarrow> exn option"

definition default_error_handling :: "APIError \<Rightarrow> bool" where
  "default_error_handling error =
     (if error_type error = AUTHENTICATION_ERROR then False
      else if error_type error = RATE_LIMIT_ERROR then True
      else if error_type error = SERVER_ERROR then True
      else if error_type error = NETWORK_ERROR then True
      else False)"

definition handle_error :: "(ErrorType \<rightharpoonup> callback) \<Rightarrow> APIError \<Rightarrow> bool" where
  "handle_error error_callbacks error =
     (case error_callbacks (error_type error) of
        Some cb \<Rightarrow>
          (case cb error of
             None \<Rightarrow> True
           | Some e \<Rightarrow> default_error_handling error)
      | None \<Rightarrow> default_error_handling error)"

subsection \<open>\<^verbatim>\<open>RobustAPIClient\<close>\<close>

text \<open>
  \<^verbatim>\<open>time.sleep\<close> is a parameter: \<open>sleep d\<close> is \<open>None\<close> when the call returns and
  \<open>Some e\<close> when it raises \<open>e\<close>.
\<close>

definition handle_auth_error :: callback where
  "handle_auth_error error = None"

definition handle_rate_limit :: "(real \<Rightarrow> exn option) \<Rightarrow> callback" where
  "handle_rate_limit sleep error =
     (case retry_after error of
        None \<Rightarrow> Some SleepNone
      | Some n \<Rightarrow> sleep (real_of_int n))"

definition handle_server_error :: callback where
  "handle_server_error error = None"

text \<open>Of the client, the two attributes that the retry loop reads.\<close>

record RobustAPIClient =
  error_callbacks :: "ErrorType \<rightharpoonup> callback"
  retry_strategy :: RetryStrategy

text \<open>\<^verbatim>\<open>__init__\<close> with \<^verbatim>\<open>_setup_error_callbacks\<close>.\<close>

definition init_client :: "(real \<Rightarrow> exn option) \<Rightarrow> RobustAPIClient" where
  "init_client sleep =
     \<lparr>error_callbacks =
        [AUTHENTICATION_ERROR \<mapsto> handle_auth_error,
         RATE_LIMIT_ERROR \<mapsto> handle_rate_limit sleep,
         SERVER_ERROR \<mapsto> handle_server_error],
      retry_strategy = default_strategy\<rparr>"

subsection \<open>\<^verbatim>\<open>RobustAPIClient._make_request_with_retry\<close>\<close>

text \<open>
  What surrounds one run of the loop: what \<^verbatim>\<open>self.session.request\<close> does at each
  attempt (it returns a response or raises), what \<^verbatim>\<open>time.sleep\<close> does, and the clock
  readings of each attempt (\<open>stamp\<close> for \<^verbatim>\<open>datetime.now()\<close>, \<open>tick\<close> for
  \<^verbatim>\<open>time.time()\<close>; one reading of each per attempt).
\<close>

datatype outcome = Responds Response | Raises exn

record env =
  request :: "nat \<Rightarrow> outcome"
  sleep :: "real \<Rightarrow> exn option"
  stamp :: "nat \<Rightarrow> real"
  tick :: "nat \<Rightarrow> real"

text \<open>The dictionaries that the method returns, as association lists.\<close>

datatype pyval = VBool bool | VStr message | VInt int | VNone | VData string

type_synonym result = "(string \<times> pyval) list"

definition success_result :: "Response \<Rightarrow> string \<Rightarrow> result" where
  "success_result response data =
     [(''success'', VBool True),
      (''data'', VData data),
      (''status_code'', VInt (resp_status_code response))]"

definition failure_with_status :: "APIError \<Rightarrow> result" where
  "failure_with_status error =
     [(''success'', VBool False),
      (''error'', VStr (message error)),
      (''error_type'', VStr (Text (value_of (error_type error)))),
      (''status_code'', (case status_code error of None \<Rightarrow> VNone | Some c \<Rightarrow> VInt c))]"

definition failure :: "APIError \<Rightarrow> result" where
  "failure error =
     [(''success'', VBool False),
      (''error'', VStr (message error)),
      (''error_type'', VStr (Text (value_of (error_type error))))]"

definition max_retries_exceeded :: result where
  "max_retries_exceeded =
     [(''success'', VBool False),
      (''error'', VStr (Text ''Max retries exceeded'')),
      (''error_type'', VStr (Text ''max_retries_exceeded''))]"

text \<open>How one iteration of the loop ends.\<close>

datatype step = Continue | Return result | Raise exn

text \<open>
  The body of the \<^verbatim>\<open>try\<close>: \<open>Inl e\<close> when it raises \<open>e\<close>, to be dispatched to the
  \<^verbatim>\<open>except\<close> clauses.
\<close>

definition try_body :: "RobustAPIClient \<Rightarrow> env \<Rightarrow> nat \<Rightarrow> exn + step" where
  "try_body self ev attempt =
     (case request ev attempt of
        Raises e \<Rightarrow> Inl e
      | Responds response \<Rightarrow>
          if resp_status_code response = 200 then
            (case json response of
               Inl e \<Rightarrow> Inl e
             | Inr data \<Rightarrow> Inr (Return (success_result response data)))
          else
            (case classify_error (stamp ev attempt) None (Some response) of
               Inl e \<Rightarrow> Inl e
             | Inr error \<Rightarrow>
                 if \<not> should_retry (retry_strategy self) error (int attempt) then
                   Inr (Return (failure_with_status error))
                 else if \<not> handle_error (error_callbacks self) error then
                   Inr (Return (failure_with_status error))
                 else
                   (case get_delay (retry_strategy self) (int attempt) error (tick ev attempt) of
                      Inl e \<Rightarrow> Inl e
                    | Inr delay \<Rightarrow>
                        (case sleep ev delay of
                           Some e \<Rightarrow> Inl e
                         | None \<Rightarrow> Inr Continue))))"

text \<open>
  The clauses \<^verbatim>\<open>except requests.exceptions.Timeout\<close> and
  \<^verbatim>\<open>except requests.exceptions.ConnectionError\<close> have the same body up to the text
  they log. An exception raised inside a clause leaves the method.
\<close>

definition except_retry :: "RobustAPIClient \<Rightarrow> env \<Rightarrow> nat \<Rightarrow> exn \<Rightarrow> step" where
  "except_retry self ev attempt e =
     (case classify_error (stamp ev attempt) (Some e) None of
        Inl x \<Rightarrow> Raise x
      | Inr error \<Rightarrow>
          if \<not> should_retry (retry_strategy self) error (int attempt) then
            Return (failure error)
          else
            (case get_delay (retry_strategy self) (int attempt) error (tick ev attempt) of
               Inl x \<Rightarrow> Raise x
             | Inr delay \<Rightarrow>
                 (case sleep ev delay of
                    Some x \<Rightarrow> Raise x
                  | None \<Rightarrow> Continue)))"

text \<open>The clause \<^verbatim>\<open>except Exception\<close>.\<close>

definition except_other :: "RobustAPIClient \<Rightarrow> env \<Rightarrow> nat \<Rightarrow> exn \<Rightarrow> step" where
  "except_other self ev attempt e =
     (case classify_error (stamp ev attempt) (Some e) None of
        Inl x \<Rightarrow> Raise x
      | Inr error \<Rightarrow> Return (failure error))"

definition attempt_step :: "RobustAPIClient \<Rightarrow> env \<Rightarrow> nat \<Rightarrow> step" where
  "attempt_step self ev attempt =
     (case try_body self ev attempt of
        Inr st \<Rightarrow> st
      | Inl e \<Rightarrow>
          if isinstance_Timeout (Some e) then except_retry self ev attempt e
          else if isinstance_ConnectionError (Some e) then except_retry self ev attempt e
          else except_other self ev attempt e)"

text \<open>
  \<^verbatim>\<open>for attempt in range(self.retry_strategy.max_retries + 1)\<close>, with the number of
  iterations that remain as the second counter, and the \<^verbatim>\<open>return\<close> after the loop.
  \<open>Inl e\<close>: the method raises \<open>e\<close>.
\<close>

fun retry_loop :: "RobustAPIClient \<Rightarrow> env \<Rightarrow> nat \<Rightarrow> nat \<Rightarrow> exn + result" where
  "retry_loop self ev attempt 0 = Inr max_retries_exceeded"
| "retry_loop self ev attempt (Suc k) =
     (case attempt_step self ev attempt of
        Continue \<Rightarrow> retry_loop self ev (Suc attempt) k
      | Return r \<Rightarrow> Inr r
      | Raise e \<Rightarrow> Inl e)"

definition make_request_with_retry :: "RobustAPIClient \<Rightarrow> env \<Rightarrow> exn + result" where
  "make_request_with_retry self ev =
     retry_loop self ev 0 (nat (max_retries (retry_strategy self) + 1))"

subsection \<open>A concrete environment\<close>

text \<open>
  \<^verbatim>\<open>time.sleep\<close> on durations that the platform can represent: a negative
  duration raises \<^verbatim>\<open>ValueError\<close>.
\<close>

definition time_sleep :: "real \<Rightarrow> exn option" where
  "time_sleep d =
     (if d < 0 then Some (Exn ValueError ''sleep length must be non-negative'') else None)"

text \<open>A server that answers every request with status 503.\<close>

definition unavailable :: env where
  "unavailable =
     \<lparr>request = (\<lambda>_. Responds \<lparr>resp_status_code = 503, headers = map_of [], json = Inr []\<rparr>),
      sleep = time_sleep, stamp = (\<lambda>_. 0), tick = (\<lambda>_. 1 / 2)\<rparr>"

text \<open>A server that answers the first three requests with status 503; the fourth request
  ends as given.\<close>

definition after_three :: "outcome \<Rightarrow> env" where
  "after_three final =
     \<lparr>request = (\<lambda>i. if i < 3
                      then Responds \<lparr>resp_status_code = 503, headers = map_of [], json = Inr []\<rparr>
                      else final),
      sleep = time_sleep, stamp = (\<lambda>_. 0), tick = (\<lambda>_. 1 / 2)\<rparr>"

text \<open>A server that lets every request time out.\<close>

definition timing_out :: env where
  "timing_out =
     \<lparr>request = (\<lambda>_. Raises (Exn ReadTimeout ''Read timed out.'')),
      sleep = time_sleep, stamp = (\<lambda>_. 0), tick = (\<lambda>_. 1 / 2)\<rparr>"

section \<open>Properties of \<^verbatim>\<open>should_retry\<close>\<close>

text \<open>
  Claim C1. Below the retry limit, \<open>should_retry\<close> answers true exactly for the
  kinds network, timeout, server and rate limit; hence it answers false for
  authentication, authorization, validation, unknown and client errors.
\<close>

theorem should_retry_kinds:
  "attempt < max_retries self \<Longrightarrow>
     should_retry self error attempt =
       (error_type error = NETWORK_ERROR \<or> error_type error = TIMEOUT_ERROR \<or>
        error_type error = SERVER_ERROR \<or> error_type error = RATE_LIMIT_ERROR)
     \<and> (error_type error \<in> {AUTHENTICATION_ERROR, AUTHORIZATION_ERROR, VALIDATION_ERROR,
            UNKNOWN_ERROR, CLIENT_ERROR} \<longrightarrow> \<not> should_retry self error attempt)"
  by (auto simp: should_retry_def retryable_errors_def)

theorem should_retry_kinds_witness:
  "should_retry default_strategy
     \<lparr>error_type = SERVER_ERROR, message = Text ''Server error: 503'',
      status_code = Some 503, retry_after = None, timestamp = 0,
      original_exception = None\<rparr> 0
   \<and> \<not> should_retry default_strategy
     \<lparr>error_type = CLIENT_ERROR, message = Text ''Client error: 404'',
      status_code = Some 404, retry_after = None, timestamp = 0,
      original_exception = None\<rparr> 0"
proof -
  have lt: "(0::int) < max_retries default_strategy"
    by (simp add: default_strategy_def)
  show ?thesis
    using should_retry_kinds [OF lt, of "\<lparr>error_type = SERVER_ERROR,
        message = Text ''Server error: 503'', status_code = Some 503, retry_after = None,
        timestamp = 0, original_exception = None\<rparr>"]
      should_retry_kinds [OF lt, of "\<lparr>error_type = CLIENT_ERROR,
        message = Text ''Client error: 404'', status_code = Some 404, retry_after = None,
        timestamp = 0, original_exception = None\<rparr>"]
    by simp
qed

text \<open>
  Claim C2. At or beyond the retry limit, \<open>should_retry\<close> answers false, whatever
  the error is.
\<close>

theorem should_retry_exhausted:
  "attempt \<ge> max_retries self \<Longrightarrow> \<not> should_retry self error attempt"
  by (simp add: should_retry_def)

theorem should_retry_exhausted_witness:
  "\<not> should_retry default_strategy
     \<lparr>error_type = SERVER_ERROR, message = Text ''Server error: 500'',
      status_code = Some 500, retry_after = None, timestamp = 0,
      original_exception = None\<rparr> 3"
proof -
  have ge: "(3::int) \<ge> max_retries default_strategy"
    by (simp add: default_strategy_def)
  show ?thesis
    using should_retry_exhausted [OF ge] by simp
qed

text \<open>
  Claim C10. A client error is not retried below the retry limit even when its status
  code is 429: the exemption in the first guard only lets it reach the list of
  retryable kinds, which does not contain the client kind.
\<close>

theorem should_retry_client_429:
  "attempt < max_retries self \<Longrightarrow> error_type error = CLIENT_ERROR \<Longrightarrow>
     status_code error = Some 429 \<Longrightarrow> \<not> should_retry self error attempt"
  by (simp add: should_retry_def retryable_errors_def)

theorem should_retry_client_429_witness:
  "\<not> should_retry default_strategy
     \<lparr>error_type = CLIENT_ERROR, message = Text ''Client error: 429'',
      status_code = Some 429, retry_after = None, timestamp = 0,
      original_exception = None\<rparr> 0"
proof -
  have lt: "(0::int) < max_retries default_strategy"
    by (simp add: default_strategy_def)
  show ?thesis
    using should_retry_client_429 [OF lt, of "\<lparr>error_type = CLIENT_ERROR,
      message = Text ''Client error: 429'', status_code = Some 429, retry_after = None,
      timestamp = 0, original_exception = None\<rparr>"]
    by simp
qed

section \<open>Properties of \<^verbatim>\<open>get_delay\<close>\<close>

lemma float_pow_defined: "pow_defined x n \<Longrightarrow> float_pow x n = Inr (x powi n)"
  by (auto simp: pow_defined_def float_pow_def float_of_int_def)

lemma backoff_defined:
  "pow_defined (backoff_factor self) attempt \<Longrightarrow>
     backoff self attempt =
       Inr (min (base_delay self * backoff_factor self powi attempt) (max_delay self))"
  by (simp add: backoff_def float_pow_defined)

lemma pow_defined_default:
  assumes "0 \<le> n" and "n \<le> 10"
  shows "pow_defined (backoff_factor default_strategy) n"
proof -
  have "(2::real) powi n = 2 ^ nat n"
    using assms by (simp add: power_int_def)
  also have "\<dots> \<le> 2 ^ 10"
    using assms by (intro power_increasing) auto
  finally have le: "(2::real) powi n \<le> 1024" by simp
  have pos: "0 \<le> (2::real) powi n" by simp
  have lim: "(1024::real) < float_limit"
    by (simp add: float_limit_def)
  have "\<bar>real_of_int n\<bar> \<le> 10"
    using assms by simp
  then show ?thesis
    using le pos lim by (simp add: pow_defined_def default_strategy_def)
qed

lemma get_delay_backoff_path:
  "rate_limit_delay error = None \<Longrightarrow> backoff self attempt = Inr d \<Longrightarrow>
     get_delay self attempt error clock = Inr (d + d * 0.1 * (0.5 - frac clock))"
  by (simp add: get_delay_def Let_def)

lemma get_delay_retry_after:
  "rate_limit_delay error = Some n \<Longrightarrow> \<bar>real_of_int n\<bar> < float_limit \<Longrightarrow>
     get_delay self attempt error clock = Inr (real_of_int n)"
  by (simp add: get_delay_def float_of_int_def)

lemma frac_quarter: "frac (1 / 4 :: real) = 1 / 4"
  by (simp add: frac_def)

lemma frac_half: "frac (1 / 2 :: real) = 1 / 2"
  by (simp add: frac_def)

text \<open>
  Claim C5 (fails in the code). An error of kind rate limit with \<open>retry_after = 0\<close>,
  which is what a response with the header \<^verbatim>\<open>Retry-After: 0\<close> is classified as, does
  not get its \<open>retry_after\<close> back as the delay: the truth test of line 79 takes \<open>0\<close>
  for absent, and the delay is the jittered backoff, more than 0.95 seconds at attempt 0
  of the default strategy.
\<close>

theorem get_delay_retry_after_zero:
  "get_delay default_strategy 0
     \<lparr>error_type = RATE_LIMIT_ERROR, message = Text ''Rate limit exceeded'',
      status_code = Some 429, retry_after = Some 0, timestamp = now,
      original_exception = None\<rparr> clock
   = Inr (1 + 1 * 0.1 * (0.5 - frac clock))
   \<and> get_delay default_strategy 0
     \<lparr>error_type = RATE_LIMIT_ERROR, message = Text ''Rate limit exceeded'',
      status_code = Some 429, retry_after = Some 0, timestamp = now,
      original_exception = None\<rparr> clock
   \<noteq> Inr (real_of_int 0)"
proof -
  have b: "backoff default_strategy 0 = Inr 1"
    using backoff_defined [OF pow_defined_default [of 0]]
    by (simp add: default_strategy_def)
  have g: "get_delay default_strategy 0
     \<lparr>error_type = RATE_LIMIT_ERROR, message = Text ''Rate limit exceeded'',
      status_code = Some 429, retry_after = Some 0, timestamp = now,
      original_exception = None\<rparr> clock
   = Inr (1 + 1 * 0.1 * (0.5 - frac clock))"
    by (rule get_delay_backoff_path) (simp_all add: rate_limit_delay_def b)
  have "frac clock < 1" by (rule frac_lt_1)
  then have "0 < (1::real) + 1 * 0.1 * (0.5 - frac clock)" by (simp add: field_simps)
  then have "(1::real) + 1 * 0.1 * (0.5 - frac clock) \<noteq> real_of_int 0" by simp
  with g show ?thesis by simp
qed

text \<open>
  Within the range of floats. On an error that does not take the rate-limit path, and
  when the power \<open>backoff_factor ** attempt\<close> is computed without a range error, the
  delay before the jitter is \<open>min (base_delay * backoff_factor ^ attempt) max_delay\<close>,
  and \<open>get_delay\<close> returns it with the jitter added. With the default strategy
  (1, 2, 60) it is 1, 2, 4 and 8 at the attempts 0 to 3, and 60 at attempt 10.
\<close>

lemma get_delay_backoff:
  assumes "rate_limit_delay error = None"
    and "pow_defined (backoff_factor self) attempt"
  shows "backoff self attempt =
           Inr (min (base_delay self * backoff_factor self powi attempt) (max_delay self))
         \<and> get_delay self attempt error clock =
           Inr (min (base_delay self * backoff_factor self powi attempt) (max_delay self)
                + min (base_delay self * backoff_factor self powi attempt) (max_delay self)
                  * 0.1 * (0.5 - frac clock))
         \<and> backoff default_strategy 0 = Inr 1
         \<and> backoff default_strategy 1 = Inr 2
         \<and> backoff default_strategy 2 = Inr 4
         \<and> backoff default_strategy 3 = Inr 8
         \<and> backoff default_strategy 10 = Inr 60"
proof -
  have b: "backoff self attempt =
      Inr (min (base_delay self * backoff_factor self powi attempt) (max_delay self))"
    using assms(2) by (rule backoff_defined)
  have g: "get_delay self attempt error clock =
           Inr (min (base_delay self * backoff_factor self powi attempt) (max_delay self)
                + min (base_delay self * backoff_factor self powi attempt) (max_delay self)
                  * 0.1 * (0.5 - frac clock))"
    using assms(1) b by (rule get_delay_backoff_path)
  have v: "backoff default_strategy n = Inr (min (1 * 2 powi n) 60)"
    if "0 \<le> n" "n \<le> 10" for n
    using backoff_defined [OF pow_defined_default [OF that]]
    by (simp add: default_strategy_def)
  have "backoff default_strategy 0 = Inr 1" using v [of 0] by simp
  moreover have "backoff default_strategy 1 = Inr 2" using v [of 1] by simp
  moreover have "backoff default_strategy 2 = Inr 4" using v [of 2] by simp
  moreover have "backoff default_strategy 3 = Inr 8" using v [of 3] by simp
  moreover have "backoff default_strategy 10 = Inr 60" using v [of 10] by simp
  ultimately show ?thesis using b g by simp
qed

lemma get_delay_backoff_example:
  "get_delay default_strategy 2
     \<lparr>error_type = NETWORK_ERROR, message = Text ''Connection error'',
      status_code = None, retry_after = None, timestamp = 0,
      original_exception = Some (Exn ConnectionError ''Connection refused'')\<rparr> (1 / 2)
   = Inr 4
   \<and> get_delay default_strategy 10
     \<lparr>error_type = RATE_LIMIT_ERROR, message = Text ''Rate limit exceeded'',
      status_code = Some 429, retry_after = None, timestamp = 0,
      original_exception = None\<rparr> (1 / 4)
   = Inr (123 / 2)"
proof -
  have r1: "rate_limit_delay
     \<lparr>error_type = NETWORK_ERROR, message = Text ''Connection error'',
      status_code = None, retry_after = None, timestamp = 0,
      original_exception = Some (Exn ConnectionError ''Connection refused'')\<rparr> = None"
    by (simp add: rate_limit_delay_def)
  have r2: "rate_limit_delay
     \<lparr>error_type = RATE_LIMIT_ERROR, message = Text ''Rate limit exceeded'',
      status_code = Some 429, retry_after = None, timestamp = 0,
      original_exception = None\<rparr> = None"
    by (simp add: rate_limit_delay_def)
  have p1: "pow_defined (backoff_factor default_strategy) 2"
    by (rule pow_defined_default) simp_all
  have p2: "pow_defined (backoff_factor default_strategy) 10"
    by (rule pow_defined_default) simp_all
  show ?thesis
    using get_delay_backoff [OF r1 p1, of "1 / 2"] get_delay_backoff [OF r2 p2, of "1 / 4"]
    by (simp add: default_strategy_def frac_half frac_quarter)
qed

text \<open>
  Within the range of floats, on the backoff path and with a strategy whose delays and
  factor are not negative, \<open>get_delay\<close> returns, whatever the clock reads, a delay
  within 5 percent of \<open>min (base_delay * backoff_factor ^ attempt) max_delay\<close>, and the
  delay is not negative.
\<close>

lemma get_delay_jitter_bounds:
  assumes "rate_limit_delay error = None"
    and "pow_defined (backoff_factor self) attempt"
    and "0 \<le> base_delay self" and "0 \<le> max_delay self" and "0 \<le> backoff_factor self"
  shows "\<exists>d r. d = min (base_delay self * backoff_factor self powi attempt) (max_delay self)
           \<and> get_delay self attempt error clock = Inr r
           \<and> d - 0.05 * d \<le> r \<and> r \<le> d + 0.05 * d \<and> 0 \<le> r"
proof -
  define d where "d = min (base_delay self * backoff_factor self powi attempt) (max_delay self)"
  have p: "0 \<le> backoff_factor self powi attempt"
    using assms(5) by (simp add: zero_le_power_int)
  have d0: "0 \<le> d"
    unfolding d_def using assms(3,4) p by (simp add: min_def)
  have b: "backoff self attempt = Inr d"
    unfolding d_def using assms(2) by (rule backoff_defined)
  have g: "get_delay self attempt error clock = Inr (d + d * 0.1 * (0.5 - frac clock))"
    using assms(1) b by (rule get_delay_backoff_path)
  have f0: "0 \<le> frac clock" by (rule frac_ge_0)
  have f1: "frac clock < 1" by (rule frac_lt_1)
  have lo: "- 0.5 \<le> 0.5 - frac clock" using f1 by simp
  have hi: "0.5 - frac clock \<le> 0.5" using f0 by simp
  define j where "j = d * (0.5 - frac clock)"
  have j1: "d * (- 0.5) \<le> j"
    unfolding j_def using d0 lo by (rule mult_left_mono [rotated])
  have j2: "j \<le> d * 0.5"
    unfolding j_def using d0 hi by (rule mult_left_mono [rotated])
  have r: "d + d * 0.1 * (0.5 - frac clock) = d + 0.1 * j"
    by (simp add: j_def)
  have "d - 0.05 * d \<le> d + 0.1 * j" using j1 by simp
  moreover have "d + 0.1 * j \<le> d + 0.05 * d" using j2 by simp
  moreover have "0 \<le> d + 0.1 * j" using j1 d0 by simp
  ultimately show ?thesis using g r d_def by auto
qed

lemma get_delay_jitter_bounds_example:
  "\<exists>r. get_delay default_strategy 1
       \<lparr>error_type = SERVER_ERROR, message = Text ''Server error: 500'',
        status_code = Some 500, retry_after = None, timestamp = 0,
        original_exception = None\<rparr> (1 / 4) = Inr r
      \<and> 2 - 0.05 * 2 \<le> r \<and> r \<le> 2 + 0.05 * 2 \<and> 0 \<le> r"
proof -
  have r1: "rate_limit_delay
     \<lparr>error_type = SERVER_ERROR, message = Text ''Server error: 500'',
      status_code = Some 500, retry_after = None, timestamp = 0,
      original_exception = None\<rparr> = None"
    by (simp add: rate_limit_delay_def)
  have p1: "pow_defined (backoff_factor default_strategy) 1"
    by (rule pow_defined_default) simp_all
  have c: "0 \<le> base_delay default_strategy" "0 \<le> max_delay default_strategy"
    "0 \<le> backoff_factor default_strategy"
    by (simp_all add: default_strategy_def)
  from get_delay_jitter_bounds [OF r1 p1 c, of "1 / 4"]
  obtain d r where d: "d = min (base_delay default_strategy *
        backoff_factor default_strategy powi 1) (max_delay default_strategy)"
    and g: "get_delay default_strategy 1
       \<lparr>error_type = SERVER_ERROR, message = Text ''Server error: 500'',
        status_code = Some 500, retry_after = None, timestamp = 0,
        original_exception = None\<rparr> (1 / 4) = Inr r"
    and bounds: "d - 0.05 * d \<le> r" "r \<le> d + 0.05 * d" "0 \<le> r"
    by blast
  have "d = 2"
    using d by (simp add: default_strategy_def)
  with g bounds show ?thesis by blast
qed

lemma float_pow_overflow: "float_pow 2 1024 = Inl FloatPowRange"
proof -
  have a: "\<not> float_limit \<le> \<bar>real_of_int 1024\<bar>"
    by (simp add: float_limit_def)
  have "(2::real) powi 1024 = 2 ^ 1024"
    by simp
  then have b: "float_limit \<le> \<bar>(2::real) powi 1024\<bar>"
    by (simp add: float_limit_def)
  show ?thesis
    unfolding float_pow_def float_of_int_def using a b by simp
qed

text \<open>
  Claim C6 (fails in the code). At attempt 1024 of the default strategy the delay before
  the jitter is not \<open>min (base_delay * backoff_factor ^ attempt) max_delay\<close>, which
  would be 60: the power \<^verbatim>\<open>2.0 ** 1024\<close> is taken before the cap and raises
  \<^verbatim>\<open>OverflowError\<close>.
\<close>

theorem backoff_overflow:
  "backoff default_strategy 1024 = Inl FloatPowRange
   \<and> backoff default_strategy 1024
     \<noteq> Inr (min (base_delay default_strategy * backoff_factor default_strategy powi 1024)
              (max_delay default_strategy))"
  using float_pow_overflow by (simp add: backoff_def default_strategy_def)

text \<open>
  Claim C7 (fails in the code). At attempt 1024 of the default strategy \<open>get_delay\<close>
  returns no delay, whatever the clock reads: it raises the \<^verbatim>\<open>OverflowError\<close> of the
  power, so there is no value within 5 percent of the capped delay.
\<close>

theorem get_delay_overflow:
  "get_delay default_strategy 1024
     \<lparr>error_type = SERVER_ERROR, message = Text ''Server error: 500'',
      status_code = Some 500, retry_after = None, timestamp = now,
      original_exception = None\<rparr> clock
   = Inl FloatPowRange"
  using float_pow_overflow
  by (simp add: get_delay_def rate_limit_delay_def backoff_def default_strategy_def)

text \<open>
  Claim C9 (fails as stated). \<open>get_delay\<close> reads the clock for its jitter: the same
  error, attempt and strategy give different delays at different clock readings.
\<close>

theorem get_delay_depends_on_clock:
  "get_delay default_strategy 0
     \<lparr>error_type = SERVER_ERROR, message = Text ''Server error: 500'',
      status_code = Some 500, retry_after = None, timestamp = 0,
      original_exception = None\<rparr> (1 / 4)
   \<noteq> get_delay default_strategy 0
     \<lparr>error_type = SERVER_ERROR, message = Text ''Server error: 500'',
      status_code = Some 500, retry_after = None, timestamp = 0,
      original_exception = None\<rparr> (1 / 2)"
proof -
  have b: "backoff default_strategy 0 = Inr 1"
    using backoff_defined [OF pow_defined_default [of 0]]
    by (simp add: default_strategy_def)
  show ?thesis
    by (simp add: get_delay_def rate_limit_delay_def b frac_half frac_quarter)
qed

text \<open>
  Claim C9, amended. \<open>should_retry\<close> always answers, and its answer is a function of
  the retry limit, the kind and status code of the error, and the attempt.
  \<open>get_delay\<close> is a function of the strategy's delays and factor, the kind and
  \<open>retry_after\<close> of the error, the attempt, and the fractional part of the clock
  reading: two calls that agree on these give the same result. On the rate-limit path
  the clock plays no part. \<open>get_delay\<close> returns a delay whenever the conversion or the
  power it computes is in range.
\<close>

theorem retry_decisions_deterministic:
  "(max_retries self = max_retries self' \<and> error_type error = error_type error'
      \<and> status_code error = status_code error'
      \<longrightarrow> should_retry self error attempt = should_retry self' error' attempt)
   \<and> (base_delay self = base_delay self' \<and> max_delay self = max_delay self'
      \<and> backoff_factor self = backoff_factor self'
      \<and> error_type error = error_type error' \<and> retry_after error = retry_after error'
      \<and> frac clock = frac clock'
      \<longrightarrow> get_delay self attempt error clock = get_delay self' attempt error' clock')
   \<and> (rate_limit_delay error \<noteq> None
      \<longrightarrow> get_delay self attempt error clock = get_delay self attempt error clock')
   \<and> (rate_limit_delay error = None \<and> pow_defined (backoff_factor self) attempt
      \<longrightarrow> (\<exists>d. get_delay self attempt error clock = Inr d))
   \<and> (\<forall>n. rate_limit_delay error = Some n \<and> \<bar>real_of_int n\<bar> < float_limit
      \<longrightarrow> get_delay self attempt error clock = Inr (real_of_int n))"
proof (intro conjI impI allI)
  assume "max_retries self = max_retries self' \<and> error_type error = error_type error'
      \<and> status_code error = status_code error'"
  then show "should_retry self error attempt = should_retry self' error' attempt"
    by (simp add: should_retry_def)
next
  assume "base_delay self = base_delay self' \<and> max_delay self = max_delay self'
      \<and> backoff_factor self = backoff_factor self'
      \<and> error_type error = error_type error' \<and> retry_after error = retry_after error'
      \<and> frac clock = frac clock'"
  then have "rate_limit_delay error = rate_limit_delay error'"
    and "backoff self attempt = backoff self' attempt"
    and "frac clock = frac clock'"
    by (auto simp add: rate_limit_delay_def backoff_def split: sum.splits)
  then show "get_delay self attempt error clock = get_delay self' attempt error' clock'"
    unfolding get_delay_def by (simp only:)
next
  assume "rate_limit_delay error \<noteq> None"
  then show "get_delay self attempt error clock = get_delay self attempt error clock'"
    by (auto simp: get_delay_def)
next
  assume "rate_limit_delay error = None \<and> pow_defined (backoff_factor self) attempt"
  then show "\<exists>d. get_delay self attempt error clock = Inr d"
    using get_delay_backoff_path [OF _ backoff_defined] by blast
next
  fix n
  assume "rate_limit_delay error = Some n \<and> \<bar>real_of_int n\<bar> < float_limit"
  then show "get_delay self attempt error clock = Inr (real_of_int n)"
    using get_delay_retry_after by blast
qed

theorem retry_decisions_deterministic_witness:
  "should_retry default_strategy
     \<lparr>error_type = SERVER_ERROR, message = Text ''Simulated server error'',
      status_code = Some 500, retry_after = None, timestamp = 0,
      original_exception = None\<rparr> 0
   = should_retry default_strategy
     \<lparr>error_type = SERVER_ERROR, message = Text ''Server error: 500'',
      status_code = Some 500, retry_after = None, timestamp = 1,
      original_exception = None\<rparr> 0
   \<and> get_delay default_strategy 1
     \<lparr>error_type = SERVER_ERROR, message = Text ''Simulated server error'',
      status_code = Some 500, retry_after = None, timestamp = 0,
      original_exception = None\<rparr> (1 / 4)
   = get_delay default_strategy 1
     \<lparr>error_type = SERVER_ERROR, message = Text ''Server error: 500'',
      status_code = Some 500, retry_after = None, timestamp = 1,
      original_exception = None\<rparr> (5 / 4)
   \<and> get_delay default_strategy 0
     \<lparr>error_type = RATE_LIMIT_ERROR, message = Text ''Simulated rate limit'',
      status_code = Some 429, retry_after = Some 60, timestamp = 0,
      original_exception = None\<rparr> (1 / 4)
   = get_delay default_strategy 0
     \<lparr>error_type = RATE_LIMIT_ERROR, message = Text ''Simulated rate limit'',
      status_code = Some 429, retry_after = Some 60, timestamp = 0,
      original_exception = None\<rparr> (1 / 2)
   \<and> (\<exists>d. get_delay default_strategy 1
     \<lparr>error_type = SERVER_ERROR, message = Text ''Simulated server error'',
      status_code = Some 500, retry_after = None, timestamp = 0,
      original_exception = None\<rparr> (1 / 4) = Inr d)
   \<and> get_delay default_strategy 0
     \<lparr>error_type = RATE_LIMIT_ERROR, message = Text ''Simulated rate limit'',
      status_code = Some 429, retry_after = Some 60, timestamp = 0,
      original_exception = None\<rparr> (1 / 4) = Inr 60"
proof -
  let ?e = "\<lparr>error_type = SERVER_ERROR, message = Text ''Simulated server error'',
      status_code = Some 500, retry_after = None, timestamp = 0,
      original_exception = None\<rparr>"
  let ?e' = "\<lparr>error_type = SERVER_ERROR, message = Text ''Server error: 500'',
      status_code = Some 500, retry_after = None, timestamp = 1,
      original_exception = None\<rparr>"
  let ?r = "\<lparr>error_type = RATE_LIMIT_ERROR, message = Text ''Simulated rate limit'',
      status_code = Some 429, retry_after = Some 60, timestamp = 0,
      original_exception = None\<rparr>"
  have fr: "frac (1 / 4 :: real) = frac (5 / 4)"
    by (simp add: frac_def)
  have p: "pow_defined (backoff_factor default_strategy) 1"
    by (rule pow_defined_default) simp_all
  have rl: "rate_limit_delay ?r = Some 60" "rate_limit_delay ?e = None"
    by (simp_all add: rate_limit_delay_def)
  have lim: "\<bar>real_of_int 60\<bar> < float_limit"
    by (simp add: float_limit_def)
  note a = retry_decisions_deterministic [where self = default_strategy
      and self' = default_strategy and error = ?e and error' = ?e' and attempt = 1
      and clock = "1 / 4" and clock' = "5 / 4"]
  note b = retry_decisions_deterministic [where self = default_strategy
      and self' = default_strategy and error = ?e and error' = ?e' and attempt = 0
      and clock = "1 / 4" and clock' = "5 / 4"]
  note c = retry_decisions_deterministic [where self = default_strategy
      and self' = default_strategy and error = ?r and error' = ?r and attempt = 0
      and clock = "1 / 4" and clock' = "1 / 2"]
  have 1: "should_retry default_strategy ?e 0 = should_retry default_strategy ?e' 0"
    using b by simp
  have 2: "get_delay default_strategy 1 ?e (1 / 4) = get_delay default_strategy 1 ?e' (5 / 4)"
    using a fr by simp
  have 3: "get_delay default_strategy 0 ?r (1 / 4) = get_delay default_strategy 0 ?r (1 / 2)"
    using c rl by simp
  have 4: "\<exists>d. get_delay default_strategy 1 ?e (1 / 4) = Inr d"
    using a p rl by simp
  have 5: "get_delay default_strategy 0 ?r (1 / 4) = Inr 60"
    using c rl lim by auto
  from 1 2 3 4 5 show ?thesis by blast
qed

section \<open>Properties of \<^verbatim>\<open>_classify_error\<close>\<close>

lemma py_int_120: "py_int ''120'' = Inr 120"
  by (simp add: py_int_def strip_def py_isspace_def py_unsigned_def digit_val_def
      int_max_str_digits_def)

lemma py_int_soon: "py_int ''soon'' = Inl (IntValueError ''soon'')"
  by (simp add: py_int_def strip_def py_isspace_def py_unsigned_def digit_val_def
      int_max_str_digits_def)

lemma py_int_http_date:
  "py_int ''Wed, 21 Oct 2015 07:28:00 GMT'' =
     Inl (IntValueError ''Wed, 21 Oct 2015 07:28:00 GMT'')"
  by (simp add: py_int_def strip_def py_isspace_def py_unsigned_def digit_val_def
      int_max_str_digits_def)

lemma classify_error_exception_returns:
  "\<exists>err. classify_error now (Some e) None = Inr err"
  by (simp add: classify_error_def Let_def)

lemma classify_error_returns:
  assumes "\<And>resp v. response = Some resp \<Longrightarrow> resp_status_code resp = 429 \<Longrightarrow>
             headers resp ''retry-after'' = Some v \<Longrightarrow> \<exists>n. py_int v = Inr n"
  shows "\<exists>err. classify_error now exception response = Inr err"
proof (cases response)
  case None
  then show ?thesis by (simp add: classify_error_def Let_def)
next
  case (Some resp)
  show ?thesis
  proof (cases "resp_status_code resp = 429")
    case False
    with Some show ?thesis by (simp add: classify_error_def Let_def)
  next
    case True
    have "\<exists>n. retry_after_header resp = Inr n"
      using assms [OF Some True] by (cases "headers resp ''retry-after''")
        (auto simp: retry_after_header_def)
    with Some True show ?thesis by (auto simp: classify_error_def Let_def)
  qed
qed

text \<open>
  Claim C3 (fails in the code). A response with status 429 whose \<^verbatim>\<open>Retry-After\<close>
  header is not an integer literal is not classified as a rate limit: \<^verbatim>\<open>int\<close> raises
  \<^verbatim>\<open>ValueError\<close>, and so does the classification.
\<close>

theorem classify_error_429_not_rate_limit:
  "classify_error 0 None
     (Some \<lparr>resp_status_code = 429, headers = map_of [(''retry-after'', ''soon'')],
            json = Inr []\<rparr>)
   = Inl (IntValueError ''soon'')"
  by (simp add: classify_error_def Let_def isinstance_Timeout_def
      isinstance_ConnectionError_def retry_after_header_def py_int_soon)

text \<open>
  On every other input the classification is as tabulated, the first case that applies
  being taken: a timeout exception gives the kind timeout; a connection error gives
  network; otherwise a response with status 401 gives authentication, with 403
  authorization, with 429 rate limit, where \<open>retry_after\<close> is 60 when there is no
  \<^verbatim>\<open>Retry-After\<close> header and the integer that the header denotes when it denotes one;
  any other status from 400 to 499 gives client, a status from 500 to 599 gives server;
  every other input gives unknown. Only the rate limit carries a \<open>retry_after\<close>.
\<close>

lemma classify_error_mapping:
  "(isinstance_Timeout exception \<longrightarrow>
      yields (classify_error now exception response) TIMEOUT_ERROR None)
   \<and> (\<not> isinstance_Timeout exception \<and> isinstance_ConnectionError exception \<longrightarrow>
      yields (classify_error now exception response) NETWORK_ERROR None)
   \<and> (\<not> isinstance_Timeout exception \<and> \<not> isinstance_ConnectionError exception \<longrightarrow>
      (case response of
         None \<Rightarrow> yields (classify_error now exception response) UNKNOWN_ERROR None
       | Some resp \<Rightarrow>
           (resp_status_code resp = 401 \<longrightarrow>
              yields (classify_error now exception response) AUTHENTICATION_ERROR None)
         \<and> (resp_status_code resp = 403 \<longrightarrow>
              yields (classify_error now exception response) AUTHORIZATION_ERROR None)
         \<and> (resp_status_code resp = 429 \<longrightarrow>
              (case headers resp ''retry-after'' of
                 None \<Rightarrow>
                   yields (classify_error now exception response) RATE_LIMIT_ERROR (Some 60)
               | Some v \<Rightarrow>
                   (\<forall>n. py_int v = Inr n \<longrightarrow>
                      yields (classify_error now exception response)
                        RATE_LIMIT_ERROR (Some n))))
         \<and> (400 \<le> resp_status_code resp \<and> resp_status_code resp < 500
              \<and> resp_status_code resp \<notin> {401, 403, 429} \<longrightarrow>
              yields (classify_error now exception response) CLIENT_ERROR None)
         \<and> (500 \<le> resp_status_code resp \<and> resp_status_code resp < 600 \<longrightarrow>
              yields (classify_error now exception response) SERVER_ERROR None)
         \<and> (resp_status_code resp < 400 \<or> 600 \<le> resp_status_code resp \<longrightarrow>
              yields (classify_error now exception response) UNKNOWN_ERROR None)))"
proof (intro conjI impI)
  assume "isinstance_Timeout exception"
  then show "yields (classify_error now exception response) TIMEOUT_ERROR None"
    by (simp add: classify_error_def Let_def)
next
  assume "\<not> isinstance_Timeout exception \<and> isinstance_ConnectionError exception"
  then show "yields (classify_error now exception response) NETWORK_ERROR None"
    by (simp add: classify_error_def Let_def)
next
  assume other: "\<not> isinstance_Timeout exception \<and> \<not> isinstance_ConnectionError exception"
  show "case response of
         None \<Rightarrow> yields (classify_error now exception response) UNKNOWN_ERROR None
       | Some resp \<Rightarrow>
           (resp_status_code resp = 401 \<longrightarrow>
              yields (classify_error now exception response) AUTHENTICATION_ERROR None)
         \<and> (resp_status_code resp = 403 \<longrightarrow>
              yields (classify_error now exception response) AUTHORIZATION_ERROR None)
         \<and> (resp_status_code resp = 429 \<longrightarrow>
              (case headers resp ''retry-after'' of
                 None \<Rightarrow>
                   yields (classify_error now exception response) RATE_LIMIT_ERROR (Some 60)
               | Some v \<Rightarrow>
                   (\<forall>n. py_int v = Inr n \<longrightarrow>
                      yields (classify_error now exception response)
                        RATE_LIMIT_ERROR (Some n))))
         \<and> (400 \<le> resp_status_code resp \<and> resp_status_code resp < 500
              \<and> resp_status_code resp \<notin> {401, 403, 429} \<longrightarrow>
              yields (classify_error now exception response) CLIENT_ERROR None)
         \<and> (500 \<le> resp_status_code resp \<and> resp_status_code resp < 600 \<longrightarrow>
              yields (classify_error now exception response) SERVER_ERROR None)
         \<and> (resp_status_code resp < 400 \<or> 600 \<le> resp_status_code resp \<longrightarrow>
              yields (classify_error now exception response) UNKNOWN_ERROR None)"
  proof (cases response)
    case None
    with other show ?thesis by (simp add: classify_error_def Let_def)
  next
    case (Some resp)
    have c401: "resp_status_code resp = 401 \<Longrightarrow>
        yields (classify_error now exception response) AUTHENTICATION_ERROR None"
      using other Some by (simp add: classify_error_def Let_def)
    have c403: "resp_status_code resp = 403 \<Longrightarrow>
        yields (classify_error now exception response) AUTHORIZATION_ERROR None"
      using other Some by (simp add: classify_error_def Let_def)
    have c429: "resp_status_code resp = 429 \<Longrightarrow> retry_after_header resp = Inr n \<Longrightarrow>
        yields (classify_error now exception response) RATE_LIMIT_ERROR (Some n)" for n
      using other Some by (simp add: classify_error_def Let_def)
    have c4xx: "400 \<le> resp_status_code resp \<and> resp_status_code resp < 500
          \<and> resp_status_code resp \<notin> {401, 403, 429} \<Longrightarrow>
        yields (classify_error now exception response) CLIENT_ERROR None"
      using other Some by (simp add: classify_error_def Let_def)
    have c5xx: "500 \<le> resp_status_code resp \<and> resp_status_code resp < 600 \<Longrightarrow>
        yields (classify_error now exception response) SERVER_ERROR None"
      using other Some by (simp add: classify_error_def Let_def)
    have cother: "resp_status_code resp < 400 \<or> 600 \<le> resp_status_code resp \<Longrightarrow>
        yields (classify_error now exception response) UNKNOWN_ERROR None"
      using other Some by (auto simp add: classify_error_def Let_def)
    have hdr: "resp_status_code resp = 429 \<Longrightarrow>
        (case headers resp ''retry-after'' of
           None \<Rightarrow> yields (classify_error now exception response) RATE_LIMIT_ERROR (Some 60)
         | Some v \<Rightarrow>
             (\<forall>n. py_int v = Inr n \<longrightarrow>
                yields (classify_error now exception response) RATE_LIMIT_ERROR (Some n)))"
      using c429 by (cases "headers resp ''retry-after''")
        (simp_all add: retry_after_header_def)
    show ?thesis
      using Some c401 c403 hdr c4xx c5xx cother by simp
  qed
qed

lemma classify_error_mapping_examples:
  "yields (classify_error 0 (Some (Exn ReadTimeout ''Read timed out.'')) None)
     TIMEOUT_ERROR None
   \<and> yields (classify_error 0 (Some (Exn ConnectionError ''Connection refused'')) None)
     NETWORK_ERROR None
   \<and> yields (classify_error 0 None
       (Some \<lparr>resp_status_code = 429, headers = map_of [(''retry-after'', ''120'')],
              json = Inr []\<rparr>))
     RATE_LIMIT_ERROR (Some 120)
   \<and> yields (classify_error 0 None
       (Some \<lparr>resp_status_code = 429, headers = map_of [], json = Inr []\<rparr>))
     RATE_LIMIT_ERROR (Some 60)
   \<and> yields (classify_error 0 None
       (Some \<lparr>resp_status_code = 401, headers = map_of [], json = Inr []\<rparr>))
     AUTHENTICATION_ERROR None
   \<and> yields (classify_error 0 None
       (Some \<lparr>resp_status_code = 403, headers = map_of [], json = Inr []\<rparr>))
     AUTHORIZATION_ERROR None
   \<and> yields (classify_error 0 None
       (Some \<lparr>resp_status_code = 404, headers = map_of [], json = Inr []\<rparr>))
     CLIENT_ERROR None
   \<and> yields (classify_error 0 None
       (Some \<lparr>resp_status_code = 503, headers = map_of [], json = Inr []\<rparr>))
     SERVER_ERROR None
   \<and> yields (classify_error 0 None
       (Some \<lparr>resp_status_code = 302, headers = map_of [], json = Inr []\<rparr>))
     UNKNOWN_ERROR None
   \<and> yields (classify_error 0 (Some (Exn ValueError ''bad'')) None) UNKNOWN_ERROR None"
proof -
  have t: "isinstance_Timeout (Some (Exn ReadTimeout ''Read timed out.''))"
    by (simp add: isinstance_Timeout_def)
  have c: "\<not> isinstance_Timeout (Some (Exn ConnectionError ''Connection refused''))
      \<and> isinstance_ConnectionError (Some (Exn ConnectionError ''Connection refused''))"
    by (simp add: isinstance_Timeout_def isinstance_ConnectionError_def)
  have n: "\<not> isinstance_Timeout None \<and> \<not> isinstance_ConnectionError None"
    by (simp add: isinstance_Timeout_def isinstance_ConnectionError_def)
  have v: "\<not> isinstance_Timeout (Some (Exn ValueError ''bad''))
      \<and> \<not> isinstance_ConnectionError (Some (Exn ValueError ''bad''))"
    by (simp add: isinstance_Timeout_def isinstance_ConnectionError_def)
  note m = classify_error_mapping [where now = 0]
  have 1: "yields (classify_error 0 (Some (Exn ReadTimeout ''Read timed out.'')) None)
     TIMEOUT_ERROR None"
    using m [where exception = "Some (Exn ReadTimeout ''Read timed out.'')"
        and response = None] t by blast
  have 2: "yields (classify_error 0 (Some (Exn ConnectionError ''Connection refused'')) None)
     NETWORK_ERROR None"
    using m [where exception = "Some (Exn ConnectionError ''Connection refused'')"
        and response = None] c by blast
  have 3: "yields (classify_error 0 None
       (Some \<lparr>resp_status_code = 429, headers = map_of [(''retry-after'', ''120'')],
              json = Inr []\<rparr>))
     RATE_LIMIT_ERROR (Some 120)"
    using m [where exception = None and response = "Some \<lparr>resp_status_code = 429,
        headers = map_of [(''retry-after'', ''120'')], json = Inr []\<rparr>"] n py_int_120
    by simp
  have 4: "yields (classify_error 0 None
       (Some \<lparr>resp_status_code = 429, headers = map_of [], json = Inr []\<rparr>))
     RATE_LIMIT_ERROR (Some 60)"
    using m [where exception = None and response = "Some \<lparr>resp_status_code = 429,
        headers = map_of [], json = Inr []\<rparr>"] n
    by simp
  have 5: "yields (classify_error 0 None
       (Some \<lparr>resp_status_code = 401, headers = map_of [], json = Inr []\<rparr>))
     AUTHENTICATION_ERROR None"
    using m [where exception = None and response = "Some \<lparr>resp_status_code = 401,
        headers = map_of [], json = Inr []\<rparr>"] n
    by simp
  have 6: "yields (classify_error 0 None
       (Some \<lparr>resp_status_code = 403, headers = map_of [], json = Inr []\<rparr>))
     AUTHORIZATION_ERROR None"
    using m [where exception = None and response = "Some \<lparr>resp_status_code = 403,
        headers = map_of [], json = Inr []\<rparr>"] n
    by simp
  have 7: "yields (classify_error 0 None
       (Some \<lparr>resp_status_code = 404, headers = map_of [], json = Inr []\<rparr>))
     CLIENT_ERROR None"
    using m [where exception = None and response = "Some \<lparr>resp_status_code = 404,
        headers = map_of [], json = Inr []\<rparr>"] n
    by simp
  have 8: "yields (classify_error 0 None
       (Some \<lparr>resp_status_code = 503, headers = map_of [], json = Inr []\<rparr>))
     SERVER_ERROR None"
    using m [where exception = None and response = "Some \<lparr>resp_status_code = 503,
        headers = map_of [], json = Inr []\<rparr>"] n
    by simp
  have 9: "yields (classify_error 0 None
       (Some \<lparr>resp_status_code = 302, headers = map_of [], json = Inr []\<rparr>))
     UNKNOWN_ERROR None"
    using m [where exception = None and response = "Some \<lparr>resp_status_code = 302,
        headers = map_of [], json = Inr []\<rparr>"] n
    by simp
  have 10: "yields (classify_error 0 (Some (Exn ValueError ''bad'')) None) UNKNOWN_ERROR None"
    using m [where exception = "Some (Exn ValueError ''bad'')" and response = None] v
    by simp
  from 1 2 3 4 5 6 7 8 9 10 show ?thesis by (intro conjI)
qed

text \<open>
  Claim C4 (fails in the code). On a response with status 429 whose \<^verbatim>\<open>Retry-After\<close>
  header is a date, the classification raises the \<^verbatim>\<open>ValueError\<close> of \<^verbatim>\<open>int\<close>: it returns
  no error value and does not fall back to 60.
\<close>

theorem classify_error_raises:
  "classify_error now None
     (Some \<lparr>resp_status_code = 429,
            headers = map_of [(''retry-after'', ''Wed, 21 Oct 2015 07:28:00 GMT'')],
            json = Inr []\<rparr>)
   = Inl (IntValueError ''Wed, 21 Oct 2015 07:28:00 GMT'')"
  by (simp add: classify_error_def Let_def isinstance_Timeout_def
      isinstance_ConnectionError_def retry_after_header_def py_int_http_date)

section \<open>Properties of \<^verbatim>\<open>_make_request_with_retry\<close>\<close>

lemma try_body_raised_last:
  assumes "max_retries (retry_strategy self) \<le> int a"
    and "try_body self ev a = Inl x"
  shows "\<exists>err. classify_error (stamp ev a) (Some x) None = Inr err
           \<and> attempt_step self ev a = Return (failure err)"
proof -
  obtain err where err: "classify_error (stamp ev a) (Some x) None = Inr err"
    using classify_error_exception_returns by blast
  have "\<not> should_retry (retry_strategy self) err (int a)"
    using assms(1) by (simp add: should_retry_def)
  then have "except_retry self ev a x = Return (failure err)"
    by (simp add: except_retry_def err)
  moreover have "except_other self ev a x = Return (failure err)"
    by (simp add: except_other_def err)
  ultimately have "attempt_step self ev a = Return (failure err)"
    using assms(2) by (simp add: attempt_step_def)
  with err show ?thesis by blast
qed

lemma retry_loop_continue:
  "(\<forall>i<k. attempt_step self ev (a + i) = Continue) \<Longrightarrow>
     retry_loop self ev a (k + m) = retry_loop self ev (a + k) m"
proof (induction k arbitrary: a)
  case 0
  then show ?case by simp
next
  case (Suc k)
  have first: "attempt_step self ev a = Continue"
    using Suc.prems by (auto dest: spec [of _ 0])
  have rest: "\<forall>i<k. attempt_step self ev (Suc a + i) = Continue"
  proof (intro allI impI)
    fix i assume "i < k"
    then have "Suc i < Suc k" by simp
    with Suc.prems have "attempt_step self ev (a + Suc i) = Continue" by blast
    then show "attempt_step self ev (Suc a + i) = Continue" by simp
  qed
  have "retry_loop self ev a (Suc k + m) = retry_loop self ev (Suc a) (k + m)"
    using first by simp
  also have "\<dots> = retry_loop self ev (Suc a + k) m"
    using Suc.IH [OF rest] .
  finally show ?case by simp
qed

lemma retry_loop_last:
  "retry_loop self ev a (Suc 0) =
     (case attempt_step self ev a of
        Continue \<Rightarrow> Inr max_retries_exceeded
      | Return r \<Rightarrow> Inr r
      | Raise e \<Rightarrow> Inl e)"
  by (simp split: step.splits)

lemma make_request_exhausted:
  assumes "0 \<le> max_retries (retry_strategy self)"
    and "\<forall>i < nat (max_retries (retry_strategy self)). attempt_step self ev i = Continue"
  shows "make_request_with_retry self ev =
     (case attempt_step self ev (nat (max_retries (retry_strategy self))) of
        Continue \<Rightarrow> Inr max_retries_exceeded
      | Return r \<Rightarrow> Inr r
      | Raise e \<Rightarrow> Inl e)"
proof -
  define n where "n = nat (max_retries (retry_strategy self))"
  have cnt: "nat (max_retries (retry_strategy self) + 1) = n + Suc 0"
    using assms(1) by (simp add: n_def nat_add_distrib)
  have "\<forall>i<n. attempt_step self ev (0 + i) = Continue"
    using assms(2) by (simp add: n_def)
  then have "retry_loop self ev 0 (n + Suc 0) = retry_loop self ev (0 + n) (Suc 0)"
    by (rule retry_loop_continue)
  then show ?thesis
    unfolding make_request_with_retry_def cnt n_def [symmetric]
    by (simp only: retry_loop_last add_0)
qed

lemma str_int_503: "str_int 503 = ''503''"
  by code_simp

lemma classify_error_503:
  "classify_error now None (Some \<lparr>resp_status_code = 503, headers = h, json = j\<rparr>) =
   Inr \<lparr>error_type = SERVER_ERROR, message = Text ''Server error: 503'',
        status_code = Some 503, retry_after = None, timestamp = now,
        original_exception = None\<rparr>"
  by (simp add: classify_error_def Let_def isinstance_Timeout_def
      isinstance_ConnectionError_def str_int_503)

lemma unavailable_continues:
  assumes "a < 3"
  shows "attempt_step (init_client time_sleep) unavailable a = Continue"
proof -
  let ?e = "\<lparr>error_type = SERVER_ERROR, message = Text ''Server error: 503'',
        status_code = Some 503, retry_after = None, timestamp = 0,
        original_exception = None\<rparr>"
  have pd: "pow_defined (backoff_factor default_strategy) (int a)"
    using assms by (intro pow_defined_default) auto
  have b: "backoff default_strategy (int a) = Inr (min (2 ^ a) 60)"
    using backoff_defined [OF pd] by (simp add: default_strategy_def)
  have g: "get_delay default_strategy (int a) ?e (1 / 2) = Inr (min (2 ^ a) 60)"
    by (simp add: get_delay_def rate_limit_delay_def b frac_half)
  have s: "time_sleep (min (2 ^ a) 60) = None"
    by (simp add: time_sleep_def min_def)
  have r: "should_retry default_strategy ?e (int a)"
    using assms by (simp add: should_retry_def retryable_errors_def default_strategy_def)
  have h: "handle_error (error_callbacks (init_client time_sleep)) ?e"
    by (simp add: handle_error_def init_client_def handle_server_error_def)
  have "try_body (init_client time_sleep) unavailable a = Inr Continue"
    using r h by (simp add: try_body_def unavailable_def classify_error_503 g s init_client_def)
  then show ?thesis by (simp add: attempt_step_def)
qed


lemma last_attempt_result:
  assumes "0 \<le> max_retries (retry_strategy self)"
    and "\<forall>i < nat (max_retries (retry_strategy self)). attempt_step self ev i = Continue"
    and "n = nat (max_retries (retry_strategy self))"
  shows "case request ev n of
           Raises x \<Rightarrow>
             (\<exists>err. classify_error (stamp ev n) (Some x) None = Inr err
                \<and> make_request_with_retry self ev = Inr (failure err))
         | Responds r \<Rightarrow>
             if resp_status_code r = 200 then
               (case json r of
                  Inl x \<Rightarrow>
                    (\<exists>err. classify_error (stamp ev n) (Some x) None = Inr err
                       \<and> make_request_with_retry self ev = Inr (failure err))
                | Inr data \<Rightarrow> make_request_with_retry self ev = Inr (success_result r data))
             else
               (case classify_error (stamp ev n) None (Some r) of
                  Inl x \<Rightarrow>
                    (\<exists>err. classify_error (stamp ev n) (Some x) None = Inr err
                       \<and> make_request_with_retry self ev = Inr (failure err))
                | Inr err \<Rightarrow> make_request_with_retry self ev = Inr (failure_with_status err))"
proof -
  have lim: "max_retries (retry_strategy self) \<le> int n"
    using assms(1,3) by simp
  have res: "make_request_with_retry self ev =
     (case attempt_step self ev n of
        Continue \<Rightarrow> Inr max_retries_exceeded
      | Return r \<Rightarrow> Inr r
      | Raise e \<Rightarrow> Inl e)"
    unfolding assms(3) using assms(1,2) by (rule make_request_exhausted)
  have raised: "\<exists>err. classify_error (stamp ev n) (Some x) None = Inr err
                  \<and> make_request_with_retry self ev = Inr (failure err)"
    if "try_body self ev n = Inl x" for x
    using try_body_raised_last [OF lim that] res by auto
  show ?thesis
  proof (cases "request ev n")
    case (Raises x)
    then have "try_body self ev n = Inl x" by (simp add: try_body_def)
    from raised [OF this] Raises show ?thesis by simp
  next
    case (Responds r)
    show ?thesis
    proof (cases "resp_status_code r = 200")
      case True
      show ?thesis
      proof (cases "json r")
        case (Inl x)
        then have "try_body self ev n = Inl x"
          using Responds True by (simp add: try_body_def)
        from raised [OF this] Responds True Inl show ?thesis by simp
      next
        case (Inr data)
        then have "try_body self ev n = Inr (Return (success_result r data))"
          using Responds True by (simp add: try_body_def)
        then have "attempt_step self ev n = Return (success_result r data)"
          by (simp add: attempt_step_def)
        with res Responds True Inr show ?thesis by simp
      qed
    next
      case False
      show ?thesis
      proof (cases "classify_error (stamp ev n) None (Some r)")
        case (Inl x)
        then have "try_body self ev n = Inl x"
          using Responds False by (simp add: try_body_def)
        from raised [OF this] Responds False Inl show ?thesis by simp
      next
        case (Inr err)
        have "\<not> should_retry (retry_strategy self) err (int n)"
          using lim by (simp add: should_retry_def)
        then have "try_body self ev n = Inr (Return (failure_with_status err))"
          using Responds False Inr by (simp add: try_body_def)
        then have "attempt_step self ev n = Return (failure_with_status err)"
          by (simp add: attempt_step_def)
        with res Responds False Inr show ?thesis by simp
      qed
    qed
  qed
qed

text \<open>
  Claim C8. When every attempt before the last one has ended in a retry, the method
  returns at the last attempt, which is attempt \<open>max_retries\<close>: it does not raise and
  it does not reach the statement after the loop. If the last attempt fails too, the
  dictionary returned has \<^verbatim>\<open>success\<close> false and holds, of the error classified in that
  attempt, the message under \<^verbatim>\<open>error\<close>, the kind under \<^verbatim>\<open>error_type\<close> and, for an
  error response, the status code under \<^verbatim>\<open>status_code\<close>.
\<close>

theorem exhausted_retries_return_last_error:
  assumes "0 \<le> max_retries (retry_strategy self)"
    and "\<forall>i < nat (max_retries (retry_strategy self)). attempt_step self ev i = Continue"
    and "n = nat (max_retries (retry_strategy self))"
  shows "case request ev n of
           Raises x \<Rightarrow>
             (\<exists>err. classify_error (stamp ev n) (Some x) None = Inr err
                \<and> make_request_with_retry self ev =
                    Inr [(''success'', VBool False),
                         (''error'', VStr (message err)),
                         (''error_type'', VStr (Text (value_of (error_type err))))])
         | Responds r \<Rightarrow>
             if resp_status_code r = 200 then
               (case json r of
                  Inl x \<Rightarrow>
                    (\<exists>err. classify_error (stamp ev n) (Some x) None = Inr err
                       \<and> make_request_with_retry self ev =
                           Inr [(''success'', VBool False),
                                (''error'', VStr (message err)),
                                (''error_type'', VStr (Text (value_of (error_type err))))])
                | Inr data \<Rightarrow>
                    make_request_with_retry self ev =
                      Inr [(''success'', VBool True),
                           (''data'', VData data),
                           (''status_code'', VInt 200)])
             else
               (case classify_error (stamp ev n) None (Some r) of
                  Inl x \<Rightarrow>
                    (\<exists>err. classify_error (stamp ev n) (Some x) None = Inr err
                       \<and> make_request_with_retry self ev =
                           Inr [(''success'', VBool False),
                                (''error'', VStr (message err)),
                                (''error_type'', VStr (Text (value_of (error_type err))))])
                | Inr err \<Rightarrow>
                    make_request_with_retry self ev =
                      Inr [(''success'', VBool False),
                           (''error'', VStr (message err)),
                           (''error_type'', VStr (Text (value_of (error_type err)))),
                           (''status_code'',
                              (case status_code err of None \<Rightarrow> VNone | Some c \<Rightarrow> VInt c))])"
proof (cases "request ev n")
  case (Raises x)
  with last_attempt_result [OF assms] show ?thesis
    by (simp add: failure_def)
next
  case (Responds r)
  show ?thesis
  proof (cases "resp_status_code r = 200")
    case True
    with Responds last_attempt_result [OF assms] show ?thesis
      by (cases "json r") (simp_all add: failure_def success_result_def)
  next
    case False
    with Responds last_attempt_result [OF assms] show ?thesis
      by (cases "classify_error (stamp ev n) None (Some r)")
        (simp_all add: failure_def failure_with_status_def)
  qed
qed

lemma after_three_continues:
  assumes "a < 3"
  shows "attempt_step (init_client time_sleep) (after_three final) a = Continue"
proof -
  let ?e = "\<lparr>error_type = SERVER_ERROR, message = Text ''Server error: 503'',
        status_code = Some 503, retry_after = None, timestamp = 0,
        original_exception = None\<rparr>"
  have pd: "pow_defined (backoff_factor default_strategy) (int a)"
    using assms by (intro pow_defined_default) auto
  have b: "backoff default_strategy (int a) = Inr (min (2 ^ a) 60)"
    using backoff_defined [OF pd] by (simp add: default_strategy_def)
  have g: "get_delay default_strategy (int a) ?e (1 / 2) = Inr (min (2 ^ a) 60)"
    by (simp add: get_delay_def rate_limit_delay_def b frac_half)
  have s: "time_sleep (min (2 ^ a) 60) = None"
    by (simp add: time_sleep_def min_def)
  have r: "should_retry default_strategy ?e (int a)"
    using assms by (simp add: should_retry_def retryable_errors_def default_strategy_def)
  have h: "handle_error (error_callbacks (init_client time_sleep)) ?e"
    by (simp add: handle_error_def init_client_def handle_server_error_def)
  have "try_body (init_client time_sleep) (after_three final) a = Inr Continue"
    using r h assms
    by (simp add: try_body_def after_three_def classify_error_503 g s init_client_def)
  then show ?thesis by (simp add: attempt_step_def)
qed

lemma classify_error_read_timeout:
  "classify_error now (Some (Exn ReadTimeout ''Read timed out.'')) None =
   Inr \<lparr>error_type = TIMEOUT_ERROR, message = Text ''Request timeout'',
        status_code = None, retry_after = None, timestamp = now,
        original_exception = Some (Exn ReadTimeout ''Read timed out.'')\<rparr>"
  by (simp add: classify_error_def Let_def isinstance_Timeout_def)

lemma timing_out_continues:
  assumes "a < 3"
  shows "attempt_step (init_client time_sleep) timing_out a = Continue"
proof -
  let ?x = "Exn ReadTimeout ''Read timed out.''"
  let ?e = "\<lparr>error_type = TIMEOUT_ERROR, message = Text ''Request timeout'',
        status_code = None, retry_after = None, timestamp = 0,
        original_exception = Some ?x\<rparr>"
  have pd: "pow_defined (backoff_factor default_strategy) (int a)"
    using assms by (intro pow_defined_default) auto
  have b: "backoff default_strategy (int a) = Inr (min (2 ^ a) 60)"
    using backoff_defined [OF pd] by (simp add: default_strategy_def)
  have g: "get_delay default_strategy (int a) ?e (1 / 2) = Inr (min (2 ^ a) 60)"
    by (simp add: get_delay_def rate_limit_delay_def b frac_half)
  have s: "time_sleep (min (2 ^ a) 60) = None"
    by (simp add: time_sleep_def min_def)
  have r: "should_retry default_strategy ?e (int a)"
    using assms by (simp add: should_retry_def retryable_errors_def default_strategy_def)
  have t: "try_body (init_client time_sleep) timing_out a = Inl ?x"
    by (simp add: try_body_def timing_out_def)
  have "except_retry (init_client time_sleep) timing_out a ?x = Continue"
    using r by (simp add: except_retry_def timing_out_def classify_error_read_timeout
        g s init_client_def)
  then show ?thesis
    by (simp add: attempt_step_def t isinstance_Timeout_def)
qed

theorem exhausted_retries_return_last_error_witness:
  "make_request_with_retry (init_client time_sleep) unavailable =
     Inr [(''success'', VBool False),
          (''error'', VStr (Text ''Server error: 503'')),
          (''error_type'', VStr (Text ''server_error'')),
          (''status_code'', VInt 503)]
   \<and> make_request_with_retry (init_client time_sleep) timing_out =
     Inr [(''success'', VBool False),
          (''error'', VStr (Text ''Request timeout'')),
          (''error_type'', VStr (Text ''timeout_error''))]
   \<and> make_request_with_retry (init_client time_sleep)
       (after_three (Responds \<lparr>resp_status_code = 429,
          headers = map_of [(''retry-after'', ''Wed, 21 Oct 2015 07:28:00 GMT'')],
          json = Inr []\<rparr>)) =
     Inr [(''success'', VBool False),
          (''error'', VStr (StrOf (Some (IntValueError ''Wed, 21 Oct 2015 07:28:00 GMT'')))),
          (''error_type'', VStr (Text ''unknown_error''))]
   \<and> make_request_with_retry (init_client time_sleep)
       (after_three (Responds \<lparr>resp_status_code = 200, headers = map_of [],
          json = Inl (Exn ValueError ''Expecting value: line 1 column 1 (char 0)'')\<rparr>)) =
     Inr [(''success'', VBool False),
          (''error'', VStr (StrOf (Some (Exn ValueError
             ''Expecting value: line 1 column 1 (char 0)'')))),
          (''error_type'', VStr (Text ''unknown_error''))]
   \<and> make_request_with_retry (init_client time_sleep)
       (after_three (Raises (Exn ConnectionError ''Connection refused''))) =
     Inr [(''success'', VBool False),
          (''error'', VStr (Text ''Connection error'')),
          (''error_type'', VStr (Text ''network_error''))]"
proof -
  let ?c = "init_client time_sleep"
  have m: "max_retries (retry_strategy ?c) = 3"
    by (simp add: init_client_def default_strategy_def)
  have h1: "0 \<le> max_retries (retry_strategy ?c)"
    by (simp add: m)
  have h3: "(3::nat) = nat (max_retries (retry_strategy ?c))"
    by (simp add: m)
  have u: "\<forall>i < nat (max_retries (retry_strategy ?c)). attempt_step ?c unavailable i = Continue"
    by (simp add: m unavailable_continues)
  have t: "\<forall>i < nat (max_retries (retry_strategy ?c)). attempt_step ?c timing_out i = Continue"
    by (simp add: m timing_out_continues)
  have a: "\<forall>i < nat (max_retries (retry_strategy ?c)).
      attempt_step ?c (after_three final) i = Continue" for final
    by (simp add: m after_three_continues)
  have 1: "make_request_with_retry ?c unavailable =
     Inr [(''success'', VBool False),
          (''error'', VStr (Text ''Server error: 503'')),
          (''error_type'', VStr (Text ''server_error'')),
          (''status_code'', VInt 503)]"
    using exhausted_retries_return_last_error [OF h1 u h3]
    by (simp add: unavailable_def classify_error_503)
  have 2: "make_request_with_retry ?c timing_out =
     Inr [(''success'', VBool False),
          (''error'', VStr (Text ''Request timeout'')),
          (''error_type'', VStr (Text ''timeout_error''))]"
    using exhausted_retries_return_last_error [OF h1 t h3]
    by (simp add: timing_out_def classify_error_read_timeout)
  have 3: "make_request_with_retry ?c
       (after_three (Responds \<lparr>resp_status_code = 429,
          headers = map_of [(''retry-after'', ''Wed, 21 Oct 2015 07:28:00 GMT'')],
          json = Inr []\<rparr>)) =
     Inr [(''success'', VBool False),
          (''error'', VStr (StrOf (Some (IntValueError ''Wed, 21 Oct 2015 07:28:00 GMT'')))),
          (''error_type'', VStr (Text ''unknown_error''))]"
    using exhausted_retries_return_last_error [OF h1 a h3, of "Responds \<lparr>resp_status_code = 429,
          headers = map_of [(''retry-after'', ''Wed, 21 Oct 2015 07:28:00 GMT'')],
          json = Inr []\<rparr>"]
    by (simp add: after_three_def classify_error_def Let_def isinstance_Timeout_def
        isinstance_ConnectionError_def retry_after_header_def py_int_http_date)
  have 4: "make_request_with_retry ?c
       (after_three (Responds \<lparr>resp_status_code = 200, headers = map_of [],
          json = Inl (Exn ValueError ''Expecting value: line 1 column 1 (char 0)'')\<rparr>)) =
     Inr [(''success'', VBool False),
          (''error'', VStr (StrOf (Some (Exn ValueError
             ''Expecting value: line 1 column 1 (char 0)'')))),
          (''error_type'', VStr (Text ''unknown_error''))]"
    using exhausted_retries_return_last_error [OF h1 a h3, of "Responds \<lparr>resp_status_code = 200,
          headers = map_of [],
          json = Inl (Exn ValueError ''Expecting value: line 1 column 1 (char 0)'')\<rparr>"]
    by (simp add: after_three_def classify_error_def Let_def isinstance_Timeout_def
        isinstance_ConnectionError_def)
  have 5: "make_request_with_retry ?c
       (after_three (Raises (Exn ConnectionError ''Connection refused''))) =
     Inr [(''success'', VBool False),
          (''error'', VStr (Text ''Connection error'')),
          (''error_type'', VStr (Text ''network_error''))]"
    using exhausted_retries_return_last_error [OF h1 a h3,
        of "Raises (Exn ConnectionError ''Connection refused'')"]
    by (simp add: after_three_def classify_error_def Let_def isinstance_Timeout_def
        isinstance_ConnectionError_def)
  from 1 2 3 4 5 show ?thesis by (intro conjI)
qed

end
